theory Spec2Isabelle
  imports Main "HOL-Library.Word"
begin

unbundle bit_operations_syntax

section \<open>The private library loader for Windows (core/win32/loader.c)\<close>

text \<open>
  A shallow embedding of the loader. Pointers and \<open>size_t\<close> values are \<open>'a word\<close>, so
  that \<open>'a = 32\<close> is the 32-bit build and \<open>'a = 64\<close> the X64 build. The routines the
  loader consumes from the host runtime and from the PE helpers (file mapping, export
  lookup, entry points, page protection) are the fields of the record \<open>platform\<close>;
  every call of one of them that has an effect outside the loader is appended to the
  \<open>trace\<close> of the loader state. Debug-build assertions and logging are absent, as in a
  release build.
\<close>

subsection \<open>Constants and macros\<close>

definition PAGE_SIZE :: "'a::len word" where
  "PAGE_SIZE = 4096"

definition PAGE_START :: "'a::len word \<Rightarrow> 'a word" where
  "PAGE_START x = x AND NOT (PAGE_SIZE - 1)"

definition PAGE_READWRITE :: "32 word" where
  "PAGE_READWRITE = 0x04"

definition IMAGE_ORDINAL_FLAG :: "'a::len word" where
  "IMAGE_ORDINAL_FLAG = push_bit (LENGTH('a) - 1) 1"

definition TEST :: "'a::len word \<Rightarrow> 'a word \<Rightarrow> bool" where
  "TEST msk var = (msk AND var \<noteq> 0)"

text \<open>\<open>sizeof(size_t)\<close>, which is also \<open>sizeof(IMAGE_THUNK_DATA)\<close> and \<open>sizeof(app_pc)\<close>.\<close>

definition sizeof_size_t :: "'a::len word" where
  "sizeof_size_t = of_nat (LENGTH('a) div 8)"

definition sizeof_IMAGE_IMPORT_DESCRIPTOR :: "'a::len word" where
  "sizeof_IMAGE_IMPORT_DESCRIPTOR = 20"

definition RVA_TO_VA :: "'a::len word \<Rightarrow> 'a word \<Rightarrow> 'a word" where
  "RVA_TO_VA b rva = b + rva"

definition MAXIMUM_PATH :: nat where
  "MAXIMUM_PATH = 260"

definition PRIVMOD_STATIC_NUM :: nat where
  "PRIVMOD_STATIC_NUM = 6"

definition DLL_PROCESS_DETACH :: "32 word" where
  "DLL_PROCESS_DETACH = 0"

definition DLL_PROCESS_ATTACH :: "32 word" where
  "DLL_PROCESS_ATTACH = 1"

definition DLL_THREAD_ATTACH :: "32 word" where
  "DLL_THREAD_ATTACH = 2"

definition DLL_THREAD_DETACH :: "32 word" where
  "DLL_THREAD_DETACH = 3"

subsection \<open>C strings\<close>

definition NUL :: char where
  "NUL = CHR 0x00"

definition tolower :: "char \<Rightarrow> char" where
  "tolower c = (let n = (of_char c :: nat) in if 65 \<le> n \<and> n \<le> 90 then char_of (n + 32) else c)"

text \<open>\<open>strcasecmp(a, b) == 0\<close>.\<close>

definition strcasecmp_eq :: "string \<Rightarrow> string \<Rightarrow> bool" where
  "strcasecmp_eq a b = (map tolower a = map tolower b)"

text \<open>\<open>strchr(s, c) - s\<close>, or \<open>None\<close> where \<open>strchr\<close> returns \<open>NULL\<close>.\<close>

fun strchr :: "string \<Rightarrow> char \<Rightarrow> nat option" where
  "strchr [] c = None"
| "strchr (x # xs) c = (if x = c then Some 0 else map_option Suc (strchr xs c))"

text \<open>
  \<open>double_strrchr(s, c1, c2) - s\<close>: the last position holding either character.
\<close>

fun double_strrchr :: "string \<Rightarrow> char \<Rightarrow> char \<Rightarrow> nat option" where
  "double_strrchr [] c1 c2 = None"
| "double_strrchr (x # xs) c1 c2 =
     (case double_strrchr xs c1 c2 of
        Some i \<Rightarrow> Some (Suc i)
      | None \<Rightarrow> if x = c1 \<or> x = c2 then Some 0 else None)"

text \<open>The string a \<open>char\<close> buffer holds: the characters before its first NUL.\<close>

definition cstr_of :: "string \<Rightarrow> string" where
  "cstr_of buf = takeWhile (\<lambda>c. c \<noteq> NUL) buf"

text \<open>
  \<open>snprintf(buf + off, count, "%s", src)\<close>. The loader is built against the Windows
  runtime, whose \<open>snprintf\<close> is \<open>_snprintf\<close>: it stores at most \<open>count\<close> characters
  and appends the terminating NUL only when the formatted string is shorter than
  \<open>count\<close> (which is why the source follows such calls with
  \<open>NULL_TERMINATE_BUFFER\<close> or an explicit terminator).
\<close>

definition buf_store :: "string \<Rightarrow> nat \<Rightarrow> string \<Rightarrow> string" where
  "buf_store buf off cs = take off buf @ cs @ drop (off + length cs) buf"

definition snprintf :: "string \<Rightarrow> nat \<Rightarrow> nat \<Rightarrow> string \<Rightarrow> string" where
  "snprintf buf off count src =
     (if length src < count then buf_store buf off (src @ [NUL])
      else buf_store buf off (take count src))"

subsection \<open>Data model\<close>

text \<open>
  A \<open>privmod_t *\<close> is either a node allocated on the host heap or an element of the
  static array \<open>privmod_static\<close> used before the heap exists.
\<close>

datatype privmod_ptr = Heap_mod nat | Static_mod nat

text \<open>
  \<open>privmod_t\<close> without its \<open>next\<close> and \<open>prev\<close> links: the doubly-linked list headed by
  \<open>modlist\<close> is the list \<open>modlist\<close> of the state, front first, each node with its address.
\<close>

record (overloaded) ('a::len) privmod_t =
  base :: "'a word"
  size_f :: "'a word"
  name :: string
  ref_count :: "32 word"
  externally_loaded :: bool

record IMAGE_IMPORT_DESCRIPTOR =
  OriginalFirstThunk :: "32 word"
  TimeDateStamp :: "32 word"
  ForwarderChain :: "32 word"
  Name :: "32 word"
  FirstThunk :: "32 word"

text \<open>The private replacements that the redirection tables point at.\<close>

datatype redirect_fn =
    Redirect_ignore_arg4
  | Redirect_ignore_arg8
  | Redirect_RtlAllocateHeap
  | Redirect_RtlReAllocateHeap
  | Redirect_RtlFreeHeap
  | Redirect_RtlSizeHeap
  | Redirect_RtlFreeUnicodeString
  | Redirect_RtlFreeAnsiString
  | Redirect_RtlFreeOemString
  | Redirect_FlsAlloc
  | Redirect_GetModuleHandleA
  | Redirect_GetProcAddress

text \<open>Calls with an effect outside the loader's own data, in the order they happen.\<close>

datatype 'w event =
    Ev_os_open string
  | Ev_os_close
  | Ev_map_file bool string 'w 'w
  | Ev_unmap_file bool 'w 'w
  | Ev_module_rebase 'w 'w 'w
  | Ev_entry 'w 'w "32 word"
  | Ev_vmvector_add 'w 'w privmod_ptr
  | Ev_vmvector_remove 'w 'w

text \<open>
  The platform interface. \<open>map_image\<close> is \<open>map_file\<close>/\<open>os_map_file\<close> with a \<open>NULL\<close>
  base hint: the kernel chooses the address, here from the file and the calls made so
  far. \<open>dllmain\<close> is the result of calling the image's entry point.
  \<open>read_import_descriptor\<close> and \<open>read_cstr\<close> read image memory the loader never
  writes; \<open>redirect_addr\<close> gives the addresses of the replacement routines.
\<close>

record (overloaded) ('a::len) platform =
  os_open :: "string \<Rightarrow> bool"
  os_file_exists :: "string \<Rightarrow> bool"
  map_image :: "string \<Rightarrow> 'a word event list \<Rightarrow> 'a word \<times> 'a word"
  get_module_preferred_base :: "'a word \<Rightarrow> 'a word"
  module_file_relocatable :: "'a word \<Rightarrow> bool"
  module_rebase :: "'a word \<Rightarrow> 'a word \<Rightarrow> 'a word \<Rightarrow> bool"
  get_dll_short_name :: "'a word \<Rightarrow> string"
  get_module_entry :: "'a word \<Rightarrow> 'a word"
  dllmain :: "'a word \<Rightarrow> 'a word \<Rightarrow> 32 word \<Rightarrow> bool"
  get_proc_address_ex :: "'a word \<Rightarrow> string \<Rightarrow> 'a word \<times> string option"
  import_directory :: "'a word \<Rightarrow> 32 word \<times> 32 word"
  is_readable_without_exception :: "'a word \<Rightarrow> 32 word \<Rightarrow> bool"
  read_import_descriptor :: "'a word \<Rightarrow> IMAGE_IMPORT_DESCRIPTOR"
  read_cstr :: "'a word \<Rightarrow> string"
  protect_ok :: "'a word \<Rightarrow> bool"
  systemroot :: string
  redirect_addr :: "redirect_fn \<Rightarrow> 'a word"

text \<open>
  The loader's variables. \<open>privmod_static\<close> holds the elements of the static array in
  use (\<open>privmod_static_idx\<close> is its length); \<open>search_paths\<close> gives the string in each
  slot of the array of that name; \<open>forwmodpath\<close> is the static buffer of
  \<open>MAXIMUM_PATH\<close> characters; \<open>thunk_mem\<close> is image memory read and written as
  pointer-sized cells (the lookup tables and the IATs); \<open>page_prot\<close> is the protection
  of each page, by page start; \<open>next_alloc\<close> numbers the nodes that
  \<open>HEAP_TYPE_ALLOC\<close> hands out.
\<close>

record (overloaded) ('a::len) loader_state =
  modlist :: "(privmod_ptr \<times> 'a privmod_t) list"
  next_alloc :: nat
  dynamo_heap_initialized :: bool
  privmod_static :: "'a privmod_t list"
  search_paths :: "nat \<Rightarrow> string"
  forwmodpath :: string
  thunk_mem :: "'a word \<Rightarrow> 'a word"
  page_prot :: "'a word \<Rightarrow> 32 word"
  trace :: "'a word event list"

text \<open>
  What a routine does: it returns a value and a new state, or it runs into undefined
  behaviour of C (\<open>Fault\<close>: a dangling \<open>privmod_t *\<close>, \<open>strchr\<close> returning \<open>NULL\<close>
  where the code adds 1 to it, a store past a static buffer), or the bound on the
  number of nested calls and loop iterations is used up (\<open>Timeout\<close>).
\<close>

datatype ('r, 's) outcome = Done 'r 's | Fault | Timeout

definition obind :: "('r, 's) outcome \<Rightarrow> ('r \<Rightarrow> 's \<Rightarrow> ('q, 's) outcome) \<Rightarrow> ('q, 's) outcome" where
  "obind m f = (case m of Done r s \<Rightarrow> f r s | Fault \<Rightarrow> Fault | Timeout \<Rightarrow> Timeout)"


subsection \<open>The module registry\<close>

definition privload_lookup :: "'a::len loader_state \<Rightarrow> string \<Rightarrow> privmod_ptr option" where
  "privload_lookup s n =
     map_option fst (find (\<lambda>(p, m). strcasecmp_eq n (name m)) (modlist s))"

definition privload_lookup_by_base :: "'a::len loader_state \<Rightarrow> 'a word \<Rightarrow> privmod_ptr option" where
  "privload_lookup_by_base s modbase =
     map_option fst (find (\<lambda>(p, m). modbase = base m) (modlist s))"

text \<open>Reading through a \<open>privmod_t *\<close>: \<open>None\<close> when the node is not there (any more).\<close>

definition deref :: "'a::len loader_state \<Rightarrow> privmod_ptr \<Rightarrow> 'a privmod_t option" where
  "deref s p =
     (case p of
        Heap_mod i \<Rightarrow> map_of (modlist s) p
      | Static_mod i \<Rightarrow>
          if i < length (privmod_static s) then Some (privmod_static s ! i) else None)"

definition update_mod ::
  "privmod_ptr \<Rightarrow> ('m \<Rightarrow> 'm) \<Rightarrow> (privmod_ptr \<times> 'm) list \<Rightarrow> (privmod_ptr \<times> 'm) list" where
  "update_mod p f ml = map (\<lambda>(q, x). if q = p then (q, f x) else (q, x)) ml"

definition unlink_mod :: "privmod_ptr \<Rightarrow> (privmod_ptr \<times> 'm) list \<Rightarrow> (privmod_ptr \<times> 'm) list" where
  "unlink_mod p ml = filter (\<lambda>(q, x). q \<noteq> p) ml"

fun insert_after ::
  "privmod_ptr \<Rightarrow> (privmod_ptr \<times> 'm) \<Rightarrow> (privmod_ptr \<times> 'm) list \<Rightarrow> (privmod_ptr \<times> 'm) list" where
  "insert_after a x [] = []"
| "insert_after a x (y # ys) = (if fst y = a then y # x # ys else y # insert_after a x ys)"

text \<open>
  \<open>privload_insert\<close>. With the heap up, the new node is linked in at the front when
  \<open>after\<close> is \<open>NULL\<close> and directly behind \<open>after\<close> otherwise (writing through an
  \<open>after\<close> that is not a node of the list is the fault). Before that, the next element
  of the static array is used and not linked at all.
\<close>

definition privload_insert ::
  "'a::len loader_state \<Rightarrow> privmod_ptr option \<Rightarrow> 'a word \<Rightarrow> 'a word \<Rightarrow> string \<Rightarrow>
   (privmod_ptr option, 'a loader_state) outcome" where
  "privload_insert s after b sz n =
     (let m = \<lparr>base = b, size_f = sz, name = n, ref_count = 1, externally_loaded = False\<rparr> in
      if dynamo_heap_initialized s then
        (let p = Heap_mod (next_alloc s); s1 = s\<lparr>next_alloc := Suc (next_alloc s)\<rparr> in
         case after of
           None \<Rightarrow> Done (Some p) (s1\<lparr>modlist := (p, m) # modlist s\<rparr>)
         | Some a \<Rightarrow>
             if a \<in> fst ` set (modlist s)
             then Done (Some p) (s1\<lparr>modlist := insert_after a (p, m) (modlist s)\<rparr>)
             else Fault)
      else if length (privmod_static s) \<ge> PRIVMOD_STATIC_NUM then Done None s
      else Done (Some (Static_mod (length (privmod_static s))))
                (s\<lparr>privmod_static := privmod_static s @ [m]\<rparr>))"

subsection \<open>Entry dispatch, redirection, mapping\<close>

definition privload_call_entry ::
  "'a::len platform \<Rightarrow> 'a loader_state \<Rightarrow> 'a privmod_t \<Rightarrow> 32 word \<Rightarrow> bool \<times> 'a loader_state" where
  "privload_call_entry E s privmod reason =
     (let entry = get_module_entry E (base privmod) in
      if entry \<noteq> 0 \<and> entry \<noteq> base privmod
      then (dllmain E entry (base privmod) reason,
            s\<lparr>trace := trace s @ [Ev_entry entry (base privmod) reason]\<rparr>)
      else (True, s))"

definition redirect_ntdll :: "'a::len platform \<Rightarrow> (string \<times> 'a word) list" where
  "redirect_ntdll E =
     [(''LdrSetDllManifestProber'', redirect_addr E Redirect_ignore_arg4),
      (''RtlSetThreadPoolStartFunc'', redirect_addr E Redirect_ignore_arg8),
      (''RtlSetUnhandledExceptionFilter'', redirect_addr E Redirect_ignore_arg4),
      (''RtlAllocateHeap'', redirect_addr E Redirect_RtlAllocateHeap),
      (''RtlReAllocateHeap'', redirect_addr E Redirect_RtlReAllocateHeap),
      (''RtlFreeHeap'', redirect_addr E Redirect_RtlFreeHeap),
      (''RtlSizeHeap'', redirect_addr E Redirect_RtlSizeHeap),
      (''RtlFreeUnicodeString'', redirect_addr E Redirect_RtlFreeUnicodeString),
      (''RtlFreeAnsiString'', redirect_addr E Redirect_RtlFreeAnsiString),
      (''RtlFreeOemString'', redirect_addr E Redirect_RtlFreeOemString)]"

definition redirect_kernel32 :: "'a::len platform \<Rightarrow> (string \<times> 'a word) list" where
  "redirect_kernel32 E =
     [(''FlsAlloc'', redirect_addr E Redirect_FlsAlloc),
      (''GetModuleHandleA'', redirect_addr E Redirect_GetModuleHandleA),
      (''GetProcAddress'', redirect_addr E Redirect_GetProcAddress)]"

fun redirect_search :: "string \<Rightarrow> (string \<times> 'a::len word) list \<Rightarrow> 'a word" where
  "redirect_search n [] = 0"
| "redirect_search n ((k, f) # t) = (if strcasecmp_eq n k then f else redirect_search n t)"

definition privload_redirect_imports :: "'a::len platform \<Rightarrow> 'a privmod_t \<Rightarrow> string \<Rightarrow> 'a word" where
  "privload_redirect_imports E impmod n =
     (if strcasecmp_eq (name impmod) ''ntdll.dll'' then redirect_search n (redirect_ntdll E)
      else if strcasecmp_eq (name impmod) ''kernel32.dll'' then redirect_search n (redirect_kernel32 E)
      else 0)"

text \<open>
  \<open>privload_map_and_relocate\<close> returns the base (\<open>NULL\<close> is 0) and the size. The flag
  in the map and unmap events tells \<open>map_file\<close>/\<open>unmap_file\<close> (heap up, \<open>True\<close>) from
  \<open>os_map_file\<close>/\<open>os_unmap_file\<close>. The result of the mapping call is not checked
  before it is handed to \<open>get_module_preferred_base\<close>.
\<close>

definition privload_map_and_relocate ::
  "'a::len platform \<Rightarrow> 'a loader_state \<Rightarrow> string \<Rightarrow> ('a word \<times> 'a word) \<times> 'a loader_state" where
  "privload_map_and_relocate E s filename =
     (if \<not> os_open E filename then ((0, 0), s)
      else
        (let dr = dynamo_heap_initialized s;
             (mp, sz) = map_image E filename (trace s);
             s1 = s\<lparr>trace := trace s @ [Ev_os_open filename, Ev_map_file dr filename mp sz, Ev_os_close]\<rparr>;
             pref = get_module_preferred_base E mp
         in if pref \<noteq> mp then
              (if \<not> module_file_relocatable E mp
               then ((0, sz), s1\<lparr>trace := trace s1 @ [Ev_unmap_file dr mp sz]\<rparr>)
               else if \<not> module_rebase E mp sz (mp - pref)
               then ((0, sz), s1\<lparr>trace := trace s1 @
                       [Ev_module_rebase mp sz (mp - pref), Ev_unmap_file dr mp sz]\<rparr>)
               else ((mp, sz), s1\<lparr>trace := trace s1 @ [Ev_module_rebase mp sz (mp - pref)]\<rparr>))
            else ((mp, sz), s1)))"

text \<open>
  \<open>privload_get_import_descriptor\<close>: the success flag and \<open>*imports\<close> (0 for \<open>NULL\<close>).
  \<open>*imports_end\<close> is only used in assertions.
\<close>

definition privload_get_import_descriptor :: "'a::len platform \<Rightarrow> 'a privmod_t \<Rightarrow> bool \<times> 'a word" where
  "privload_get_import_descriptor E m =
     (let (va, sz) = import_directory E (base m) in
      if sz = 0 then (True, 0)
      else
        (let imports = RVA_TO_VA (base m) (ucast va) in
         if \<not> is_readable_without_exception E imports sz then (False, imports)
         else (True, imports)))"

text \<open>
  \<open>protect_virtual_memory(page, PAGE_SIZE, new_prot, &old_prot)\<close>: the flag, the value
  of \<open>old_prot\<close> afterwards, and the state.
\<close>

definition protect_virtual_memory ::
  "'a::len platform \<Rightarrow> 'a loader_state \<Rightarrow> 'a word \<Rightarrow> 32 word \<Rightarrow> 32 word \<Rightarrow>
   bool \<times> 32 word \<times> 'a loader_state" where
  "protect_virtual_memory E s page new_prot old_prot =
     (if protect_ok E page
      then (True, page_prot s page, s\<lparr>page_prot := (page_prot s)(page := new_prot)\<rparr>)
      else (False, old_prot, s))"

subsection \<open>Unloading\<close>

text \<open>
  \<open>privload_unload\<close>, \<open>privload_unload_imports\<close> and the loop of the latter over the
  import descriptors. The first argument bounds the calls and iterations. The routine
  is only handed nodes of the list (the elements of the static array are never linked
  in); a pointer that is not one is a fault. The fields of the unlinked node are read
  from the copy \<open>m\<close> until the node is freed at the end.
\<close>

fun privload_unload ::
    "nat \<Rightarrow> 'a::len platform \<Rightarrow> 'a loader_state \<Rightarrow> privmod_ptr \<Rightarrow> (bool, 'a loader_state) outcome"
  and privload_unload_imports ::
    "nat \<Rightarrow> 'a platform \<Rightarrow> 'a loader_state \<Rightarrow> 'a privmod_t \<Rightarrow> (bool, 'a loader_state) outcome"
  and unload_imports_loop ::
    "nat \<Rightarrow> 'a platform \<Rightarrow> 'a loader_state \<Rightarrow> 'a privmod_t \<Rightarrow> 'a word \<Rightarrow>
     (bool, 'a loader_state) outcome"
where
  "privload_unload 0 E s privmod = Timeout"
| "privload_unload (Suc n) E s privmod =
     (case map_of (modlist s) privmod of
        None \<Rightarrow> Fault
      | Some m0 \<Rightarrow>
         (let m = m0\<lparr>ref_count := ref_count m0 - 1\<rparr> in
          if ref_count m = 0 then
            (let s1 = s\<lparr>modlist := unlink_mod privmod (modlist s)\<rparr> in
             if \<not> externally_loaded m then
               (let s2 = snd (privload_call_entry E s1 m DLL_PROCESS_DETACH) in
                obind (privload_unload_imports n E s2 m) (\<lambda>r s3.
                  Done True (s3\<lparr>trace := trace s3 @
                    [Ev_vmvector_remove (base m) (base m + size_f m),
                     Ev_unmap_file True (base m) (size_f m)]\<rparr>)))
             else Done True s1)
          else Done False (s\<lparr>modlist := update_mod privmod (\<lambda>x. m) (modlist s)\<rparr>)))"
| "privload_unload_imports 0 E s m = Timeout"
| "privload_unload_imports (Suc n) E s m =
     (let (ok, imports) = privload_get_import_descriptor E m in
      if \<not> ok then Done False s
      else if imports = 0 then Done True s
      else unload_imports_loop n E s m imports)"
| "unload_imports_loop 0 E s m imports = Timeout"
| "unload_imports_loop (Suc n) E s m imports =
     (let d = read_import_descriptor E imports in
      if OriginalFirstThunk d \<noteq> 0 then
        (let impname = read_cstr E (RVA_TO_VA (base m) (ucast (Name d))) in
         case privload_lookup s impname of
           Some impmod \<Rightarrow>
             obind (privload_unload n E s impmod) (\<lambda>r s1.
               unload_imports_loop n E s1 m (imports + sizeof_IMAGE_IMPORT_DESCRIPTOR))
         | None \<Rightarrow> unload_imports_loop n E s m (imports + sizeof_IMAGE_IMPORT_DESCRIPTOR))
      else Done True s)"


subsection \<open>Loading\<close>

text \<open>
  A \<open>const char *\<close> argument of \<open>privload_locate_and_load\<close> points either at a string
  of an image or at the static buffer \<open>forwmodpath\<close>, which nested loads overwrite.
\<close>

datatype cstr_ref = Image_str string | Forwmodpath_buf

definition cstr :: "'a::len loader_state \<Rightarrow> cstr_ref \<Rightarrow> string" where
  "cstr s r = (case r of Image_str x \<Rightarrow> x | Forwmodpath_buf \<Rightarrow> cstr_of (forwmodpath s))"

text \<open>
  \<open>snprintf(modpath, BUFFER_SIZE_ELEMENTS(modpath), ...)\<close> followed by
  \<open>NULL_TERMINATE_BUFFER(modpath)\<close>: the string left in \<open>modpath\<close>.
\<close>

definition mk_modpath :: "string \<Rightarrow> string" where
  "mk_modpath str = take (MAXIMUM_PATH - 1) str"

text \<open>
  The block of \<open>privload_load\<close> that runs before the heap exists: the directory of the
  file is kept in \<open>search_paths[privmod_static_idx]\<close>. \<open>None\<close> is the store past the
  end of \<open>search_paths\<close>, when all elements of the static array are in use.
\<close>

definition record_search_path :: "'a::len loader_state \<Rightarrow> string \<Rightarrow> 'a loader_state option" where
  "record_search_path s filename =
     (case double_strrchr filename (CHR 0x5C) (CHR ''/'') of
        Some e \<Rightarrow>
          if e < MAXIMUM_PATH then
            (if length (privmod_static s) < PRIVMOD_STATIC_NUM
             then Some (s\<lparr>search_paths :=
                    (search_paths s)(length (privmod_static s) := take e filename)\<rparr>)
             else None)
          else Some s
      | None \<Rightarrow> Some s)"

text \<open>
  The routines of a load call each other in a cycle. Each is first written as one step
  that takes the routines it calls as the fields of \<open>R\<close>; \<open>routines_at\<close> then ties the
  knot along a bound on the depth of nested calls and loop iterations, giving
  \<open>Timeout\<close> when the bound is used up.
  \<open>process_imports_loop\<close> is the loop of \<open>privload_process_imports\<close> over the import
  descriptors, \<open>process_thunks_loop\<close> its inner loop over the lookup table and the IAT
  (it returns \<open>iat\<close> and \<open>orig_prot\<close>, or \<open>None\<close> where the source returns false from
  inside the loop), \<open>forwarder_loop\<close> the loop of \<open>privload_process_one_import\<close> over a
  sequence of forwarders (it returns \<open>func\<close>, \<open>forwmod\<close> and \<open>forwfunc\<close>, or \<open>None\<close>
  where the source returns false), and \<open>locate_client_dirs\<close> the loop of
  \<open>privload_locate_and_load\<close> over the client library directories. \<open>mod->base\<close> and
  \<open>mod->name\<close> never change while a node lives; the routines read them once, into \<open>m\<close>.
\<close>

record (overloaded) ('a::len) routines =
  r_load ::
    "'a loader_state \<Rightarrow> string \<Rightarrow> privmod_ptr option \<Rightarrow>
     (privmod_ptr option, 'a loader_state) outcome"
  r_load_finalize ::
    "'a loader_state \<Rightarrow> privmod_ptr \<Rightarrow> (bool, 'a loader_state) outcome"
  r_process_imports ::
    "'a loader_state \<Rightarrow> privmod_ptr \<Rightarrow> (bool, 'a loader_state) outcome"
  r_process_imports_loop ::
    "'a loader_state \<Rightarrow> privmod_ptr \<Rightarrow> 'a privmod_t \<Rightarrow> 'a word \<Rightarrow> (bool, 'a loader_state) outcome"
  r_process_thunks_loop ::
    "'a loader_state \<Rightarrow> privmod_ptr \<Rightarrow> 'a privmod_t \<Rightarrow> privmod_ptr \<Rightarrow>
     'a word \<Rightarrow> 'a word \<Rightarrow> 'a word \<Rightarrow> 32 word \<Rightarrow>
     (('a word \<times> 32 word) option, 'a loader_state) outcome"
  r_process_one_import ::
    "'a loader_state \<Rightarrow> privmod_ptr \<Rightarrow> 'a privmod_t \<Rightarrow> privmod_ptr \<Rightarrow>
     'a word \<Rightarrow> 'a word \<Rightarrow> (bool, 'a loader_state) outcome"
  r_forwarder_loop ::
    "'a loader_state \<Rightarrow> privmod_ptr \<Rightarrow> 'a word \<Rightarrow> string option \<Rightarrow>
     privmod_ptr \<Rightarrow> string \<Rightarrow> (('a word \<times> privmod_ptr \<times> string) option, 'a loader_state) outcome"
  r_locate_and_load ::
    "'a loader_state \<Rightarrow> cstr_ref \<Rightarrow> privmod_ptr \<Rightarrow> (privmod_ptr option, 'a loader_state) outcome"
  r_locate_client_dirs ::
    "'a loader_state \<Rightarrow> cstr_ref \<Rightarrow> privmod_ptr \<Rightarrow> nat \<Rightarrow>
     (privmod_ptr option, 'a loader_state) outcome"

definition privload_load_step ::
  "'a::len routines \<Rightarrow> 'a platform \<Rightarrow> 'a loader_state \<Rightarrow> string \<Rightarrow> privmod_ptr option \<Rightarrow>
   (privmod_ptr option, 'a loader_state) outcome" where
  "privload_load_step R E s filename dependent =
     (let ((mp, sz), s1) = privload_map_and_relocate E s filename in
      if mp = 0 then Done None s1
      else
        (case (if \<not> dynamo_heap_initialized s1 then record_search_path s1 filename else Some s1) of
           None \<Rightarrow> Fault
         | Some s2 \<Rightarrow>
             obind (privload_insert s2 dependent mp sz (get_dll_short_name E mp)) (\<lambda>privmod s3.
               case privmod of
                 None \<Rightarrow> Done None s3
               | Some p \<Rightarrow>
                   if dynamo_heap_initialized s3 then
                     obind (r_load_finalize R s3 p) (\<lambda>ok s4.
                       if \<not> ok then Done None s4 else Done (Some p) s4)
                   else Done (Some p) s3)))"

text \<open>The first argument bounds the unloading of the module when the load fails.\<close>

definition privload_load_finalize_step ::
  "nat \<Rightarrow> 'a::len routines \<Rightarrow> 'a platform \<Rightarrow> 'a loader_state \<Rightarrow> privmod_ptr \<Rightarrow>
   (bool, 'a loader_state) outcome" where
  "privload_load_finalize_step n R E s privmod =
     (case deref s privmod of
        None \<Rightarrow> Fault
      | Some m \<Rightarrow>
         (let s1 = (if \<not> externally_loaded m
                    then s\<lparr>trace := trace s @ [Ev_vmvector_add (base m) (base m + size_f m) privmod]\<rparr>
                    else s) in
          obind (r_process_imports R s1 privmod) (\<lambda>ok s2.
            if \<not> ok then obind (privload_unload n E s2 privmod) (\<lambda>r s3. Done False s3)
            else
              (case deref s2 privmod of
                 None \<Rightarrow> Fault
               | Some m2 \<Rightarrow>
                  (let (ok2, s3) = privload_call_entry E s2 m2 DLL_PROCESS_ATTACH in
                   if \<not> ok2 then obind (privload_unload n E s3 privmod) (\<lambda>r s4. Done False s4)
                   else Done True s3)))))"

definition privload_process_imports_step ::
  "'a::len routines \<Rightarrow> 'a platform \<Rightarrow> 'a loader_state \<Rightarrow> privmod_ptr \<Rightarrow>
   (bool, 'a loader_state) outcome" where
  "privload_process_imports_step R E s md =
     (case deref s md of
        None \<Rightarrow> Fault
      | Some m \<Rightarrow>
         (let (ok, imports) = privload_get_import_descriptor E m in
          if \<not> ok then Done False s
          else if imports = 0 then Done True s
          else r_process_imports_loop R s md m imports))"

definition process_imports_loop_step ::
  "'a::len routines \<Rightarrow> 'a platform \<Rightarrow> 'a loader_state \<Rightarrow> privmod_ptr \<Rightarrow> 'a privmod_t \<Rightarrow> 'a word \<Rightarrow>
   (bool, 'a loader_state) outcome" where
  "process_imports_loop_step R E s md m imports =
     (let d = read_import_descriptor E imports in
      if OriginalFirstThunk d = 0 then Done True s
      else
        (let impname = read_cstr E (RVA_TO_VA (base m) (ucast (Name d))) in
         obind (case privload_lookup s impname of
                  None \<Rightarrow> r_locate_and_load R s (Image_str impname) md
                | Some q \<Rightarrow>
                    Done (Some q)
                      (s\<lparr>modlist := update_mod q (\<lambda>x. x\<lparr>ref_count := ref_count x + 1\<rparr>) (modlist s)\<rparr>))
           (\<lambda>impmod s1.
             case impmod of
               None \<Rightarrow> Done False s1
             | Some q \<Rightarrow>
                (let lookup = RVA_TO_VA (base m) (ucast (OriginalFirstThunk d));
                     address = RVA_TO_VA (base m) (ucast (FirstThunk d));
                     iat = address;
                     (okp, orig_prot, s2) =
                        protect_virtual_memory E s1 (PAGE_START iat) PAGE_READWRITE 0
                 in if \<not> okp then Done False s2
                    else
                      obind (r_process_thunks_loop R s2 md m q lookup address iat orig_prot)
                        (\<lambda>r s3.
                          case r of
                            None \<Rightarrow> Done False s3
                          | Some (iat', orig_prot') \<Rightarrow>
                             (let (okr, op, s4) =
                                    protect_virtual_memory E s3 (PAGE_START iat') orig_prot' orig_prot'
                              in if \<not> okr then Done False s4
                                 else r_process_imports_loop R s4 md m
                                        (imports + sizeof_IMAGE_IMPORT_DESCRIPTOR)))))))"

definition process_thunks_loop_step ::
  "'a::len routines \<Rightarrow> 'a platform \<Rightarrow> 'a loader_state \<Rightarrow> privmod_ptr \<Rightarrow> 'a privmod_t \<Rightarrow>
   privmod_ptr \<Rightarrow> 'a word \<Rightarrow> 'a word \<Rightarrow> 'a word \<Rightarrow> 32 word \<Rightarrow>
   (('a word \<times> 32 word) option, 'a loader_state) outcome" where
  "process_thunks_loop_step R E s md m impmod lookup address iat orig_prot =
     (if thunk_mem s lookup = 0 then Done (Some (iat, orig_prot)) s
      else
        obind (r_process_one_import R s md m impmod lookup address) (\<lambda>ok s1.
          if \<not> ok then Done None s1
          else
            (let lookup' = lookup + sizeof_size_t;
                 address' = address + sizeof_size_t
             in if PAGE_START address' \<noteq> PAGE_START iat then
                  (let (ok1, op1, s2) =
                         protect_virtual_memory E s1 (PAGE_START iat) orig_prot orig_prot
                   in if \<not> ok1 then Done None s2
                      else
                        (let iat' = address';
                             (ok2, op2, s3) =
                                protect_virtual_memory E s2 (PAGE_START iat') PAGE_READWRITE op1
                         in if \<not> ok2 then Done None s3
                            else r_process_thunks_loop R s3 md m impmod lookup' address' iat' op2))
                else r_process_thunks_loop R s1 md m impmod lookup' address' iat orig_prot)))"

text \<open>
  In a release build \<open>ASSERT_NOT_REACHED()\<close> is empty, so for an import by ordinal the
  routine leaves the \<open>if\<close> and reaches \<open>return true\<close>.
\<close>

definition privload_process_one_import_step ::
  "'a::len routines \<Rightarrow> 'a platform \<Rightarrow> 'a loader_state \<Rightarrow> privmod_ptr \<Rightarrow> 'a privmod_t \<Rightarrow>
   privmod_ptr \<Rightarrow> 'a word \<Rightarrow> 'a word \<Rightarrow> (bool, 'a loader_state) outcome" where
  "privload_process_one_import_step R E s md m impmod lookup address =
     (if TEST IMAGE_ORDINAL_FLAG (thunk_mem s lookup) then Done True s
      else
        (let nm = RVA_TO_VA (base m) (thunk_mem s lookup AND NOT IMAGE_ORDINAL_FLAG);
             sym = read_cstr E (nm + 2)
         in case deref s impmod of
              None \<Rightarrow> Fault
            | Some im \<Rightarrow>
               (let (func, forwarder) = get_proc_address_ex E (base im) sym in
                obind (r_forwarder_loop R s md func forwarder impmod sym) (\<lambda>r s1.
                  case r of
                    None \<Rightarrow> Done False s1
                  | Some (func', forwmod, forwfunc) \<Rightarrow>
                     (case deref s1 forwmod of
                        None \<Rightarrow> Fault
                      | Some fm \<Rightarrow>
                         (let dst = privload_redirect_imports E fm forwfunc;
                              dst' = (if dst = 0 then func' else dst)
                          in Done True (s1\<lparr>thunk_mem := (thunk_mem s1)(address := dst')\<rparr>)))))))"

text \<open>
  One round of \<open>while (func == NULL)\<close>. \<open>k\<close> is \<open>forwfunc - forwarder\<close>, the length of
  the module part with its dot. The terminator is stored at \<open>k + strlen(".dll")\<close>; a
  store at index \<open>MAXIMUM_PATH\<close> is past the buffer.
\<close>

definition forwarder_loop_step ::
  "'a::len routines \<Rightarrow> 'a platform \<Rightarrow> 'a loader_state \<Rightarrow> privmod_ptr \<Rightarrow> 'a word \<Rightarrow> string option \<Rightarrow>
   privmod_ptr \<Rightarrow> string \<Rightarrow> (('a word \<times> privmod_ptr \<times> string) option, 'a loader_state) outcome" where
  "forwarder_loop_step R E s md func forwarder forwmod forwfunc =
     (if func \<noteq> 0 then Done (Some (func, forwmod, forwfunc)) s
      else
        (case forwarder of
           None \<Rightarrow> Done None s
         | Some fw \<Rightarrow>
            (case strchr fw (CHR ''.'') of
               None \<Rightarrow> Fault
             | Some i \<Rightarrow>
                (let k = Suc i;
                     forwfunc' = drop k fw
                 in if k + length ''dll'' \<ge> MAXIMUM_PATH then Done None s
                    else if k + length ''.dll'' \<ge> length (forwmodpath s) then Fault
                    else
                      (let b1 = snprintf (forwmodpath s) 0 k fw;
                           b2 = snprintf b1 k (length ''dll'') ''dll'';
                           b3 = b2[k + length ''.dll'' := NUL];
                           s1 = s\<lparr>forwmodpath := b3\<rparr>
                       in obind (case privload_lookup s1 (cstr_of (forwmodpath s1)) of
                                   Some q \<Rightarrow> Done (Some q) s1
                                 | None \<Rightarrow> r_locate_and_load R s1 Forwmodpath_buf md)
                            (\<lambda>fmo s2.
                              case fmo of
                                None \<Rightarrow> Done None s2
                              | Some q \<Rightarrow>
                                 (case deref s2 q of
                                    None \<Rightarrow> Fault
                                  | Some fm \<Rightarrow>
                                     (let (func', forwarder') =
                                            get_proc_address_ex E (base fm) forwfunc'
                                      in r_forwarder_loop R s2 md func' forwarder' q forwfunc'))))))))"

definition privload_locate_and_load_step ::
  "'a::len routines \<Rightarrow> 'a platform \<Rightarrow> 'a loader_state \<Rightarrow> cstr_ref \<Rightarrow> privmod_ptr \<Rightarrow>
   (privmod_ptr option, 'a loader_state) outcome" where
  "privload_locate_and_load_step R E s impname dependent =
     obind (r_locate_client_dirs R s impname dependent 0) (\<lambda>r s1.
       case r of
         Some q \<Rightarrow> Done (Some q) s1
       | None \<Rightarrow>
          if systemroot E \<noteq> [] then
            (let modpath = mk_modpath (systemroot E @ ''/system32/'' @ cstr s1 impname) in
             obind (if os_file_exists E modpath
                    then r_load R s1 modpath (Some dependent)
                    else Done None s1)
               (\<lambda>r2 s2.
                 case r2 of
                   Some q \<Rightarrow> Done (Some q) s2
                 | None \<Rightarrow>
                    (let modpath2 = mk_modpath (systemroot E @ ''/'' @ cstr s2 impname) in
                     if os_file_exists E modpath2
                     then r_load R s2 modpath2 (Some dependent)
                     else Done None s2)))
          else Done None s1)"

definition locate_client_dirs_step ::
  "'a::len routines \<Rightarrow> 'a platform \<Rightarrow> 'a loader_state \<Rightarrow> cstr_ref \<Rightarrow> privmod_ptr \<Rightarrow> nat \<Rightarrow>
   (privmod_ptr option, 'a loader_state) outcome" where
  "locate_client_dirs_step R E s impname dependent i =
     (if i < length (privmod_static s) then
        (let modpath = mk_modpath (search_paths s i @ ''/'' @ cstr s impname) in
         obind (if os_file_exists E modpath
                then r_load R s modpath (Some dependent)
                else Done None s)
           (\<lambda>r s1.
             case r of
               Some q \<Rightarrow> Done (Some q) s1
             | None \<Rightarrow> r_locate_client_dirs R s1 impname dependent (Suc i)))
      else Done None s)"

primrec routines_at :: "nat \<Rightarrow> 'a::len platform \<Rightarrow> 'a routines" where
  "routines_at 0 E =
     \<lparr>r_load = (\<lambda>s filename dependent. Timeout),
      r_load_finalize = (\<lambda>s privmod. Timeout),
      r_process_imports = (\<lambda>s md. Timeout),
      r_process_imports_loop = (\<lambda>s md m imports. Timeout),
      r_process_thunks_loop = (\<lambda>s md m impmod lookup address iat orig_prot. Timeout),
      r_process_one_import = (\<lambda>s md m impmod lookup address. Timeout),
      r_forwarder_loop = (\<lambda>s md func forwarder forwmod forwfunc. Timeout),
      r_locate_and_load = (\<lambda>s impname dependent. Timeout),
      r_locate_client_dirs = (\<lambda>s impname dependent i. Timeout)\<rparr>"
| "routines_at (Suc n) E =
     (let R = routines_at n E in
      \<lparr>r_load = privload_load_step R E,
       r_load_finalize = privload_load_finalize_step n R E,
       r_process_imports = privload_process_imports_step R E,
       r_process_imports_loop = process_imports_loop_step R E,
       r_process_thunks_loop = process_thunks_loop_step R E,
       r_process_one_import = privload_process_one_import_step R E,
       r_forwarder_loop = forwarder_loop_step R E,
       r_locate_and_load = privload_locate_and_load_step R E,
       r_locate_client_dirs = locate_client_dirs_step R E\<rparr>)"

definition privload_load ::
  "nat \<Rightarrow> 'a::len platform \<Rightarrow> 'a loader_state \<Rightarrow> string \<Rightarrow> privmod_ptr option \<Rightarrow>
   (privmod_ptr option, 'a loader_state) outcome" where
  "privload_load n E = r_load (routines_at n E)"

definition privload_load_finalize ::
  "nat \<Rightarrow> 'a::len platform \<Rightarrow> 'a loader_state \<Rightarrow> privmod_ptr \<Rightarrow> (bool, 'a loader_state) outcome" where
  "privload_load_finalize n E = r_load_finalize (routines_at n E)"

definition privload_process_imports ::
  "nat \<Rightarrow> 'a::len platform \<Rightarrow> 'a loader_state \<Rightarrow> privmod_ptr \<Rightarrow> (bool, 'a loader_state) outcome" where
  "privload_process_imports n E = r_process_imports (routines_at n E)"

definition privload_process_one_import ::
  "nat \<Rightarrow> 'a::len platform \<Rightarrow> 'a loader_state \<Rightarrow> privmod_ptr \<Rightarrow> 'a privmod_t \<Rightarrow>
   privmod_ptr \<Rightarrow> 'a word \<Rightarrow> 'a word \<Rightarrow> (bool, 'a loader_state) outcome" where
  "privload_process_one_import n E = r_process_one_import (routines_at n E)"

definition privload_locate_and_load ::
  "nat \<Rightarrow> 'a::len platform \<Rightarrow> 'a loader_state \<Rightarrow> cstr_ref \<Rightarrow> privmod_ptr \<Rightarrow>
   (privmod_ptr option, 'a loader_state) outcome" where
  "privload_locate_and_load n E = r_locate_and_load (routines_at n E)"

subsection \<open>The public entry points\<close>

definition load_private_library ::
  "nat \<Rightarrow> 'a::len platform \<Rightarrow> 'a loader_state \<Rightarrow> string \<Rightarrow> ('a word, 'a loader_state) outcome" where
  "load_private_library n E s filename =
     obind (case privload_lookup s filename of
              None \<Rightarrow> privload_load n E s filename None
            | Some p \<Rightarrow> Done (Some p) s)
       (\<lambda>privmod s1.
         case privmod of
           None \<Rightarrow> Done 0 s1
         | Some p \<Rightarrow> (case deref s1 p of None \<Rightarrow> Fault | Some m \<Rightarrow> Done (base m) s1))"

definition unload_private_library ::
  "nat \<Rightarrow> 'a::len platform \<Rightarrow> 'a loader_state \<Rightarrow> 'a word \<Rightarrow> (bool, 'a loader_state) outcome" where
  "unload_private_library n E s modbase =
     (case privload_lookup_by_base s modbase of
        None \<Rightarrow> Done False s
      | Some p \<Rightarrow> privload_unload n E s p)"

subsection \<open>Redirected heap routines\<close>

definition HEAP_ZERO_MEMORY :: "32 word" where
  "HEAP_ZERO_MEMORY = 0x00000008"

datatype 'w heap_event =
    Ev_global_heap_alloc 'w 'w
  | Ev_global_heap_free 'w 'w
  | Ev_RtlAllocateHeap 'w "32 word" 'w
  | Ev_RtlReAllocateHeap 'w "32 word" 'w 'w
  | Ev_RtlFreeHeap 'w "32 word" 'w
  | Ev_RtlSizeHeap 'w "32 word" 'w

record (overloaded) ('a::len) heap_platform =
  ProcessHeap :: "'a word"
  is_dynamo_address :: "'a word \<Rightarrow> bool"
  global_heap_alloc :: "'a word \<Rightarrow> 'a word heap_event list \<Rightarrow> 'a word"
  RtlAllocateHeap :: "'a word \<Rightarrow> 32 word \<Rightarrow> 'a word \<Rightarrow> 'a word"
  RtlReAllocateHeap :: "'a word \<Rightarrow> 32 word \<Rightarrow> 'a word \<Rightarrow> 'a word \<Rightarrow> 'a word"
  RtlFreeHeap :: "'a word \<Rightarrow> 32 word \<Rightarrow> 'a word \<Rightarrow> bool"
  RtlSizeHeap :: "'a word \<Rightarrow> 32 word \<Rightarrow> 'a word \<Rightarrow> 'a word"

record (overloaded) ('a::len) heap_state =
  bytes :: "'a word \<Rightarrow> 8 word option"
  heap_trace :: "'a word heap_event list"

definition accessible :: "('a::len word \<Rightarrow> 8 word option) \<Rightarrow> 'a word \<Rightarrow> nat \<Rightarrow> bool" where
  "accessible mem a k = list_all (\<lambda>i. mem (a + of_nat i) \<noteq> None) [0..<k]"

fun of_bytes :: "8 word list \<Rightarrow> 'a::len word" where
  "of_bytes [] = 0"
| "of_bytes (b # bs) = ucast b OR push_bit 8 (of_bytes bs)"

definition load_size_t :: "('a::len word \<Rightarrow> 8 word option) \<Rightarrow> 'a word \<Rightarrow> 'a word option" where
  "load_size_t mem a =
     (if accessible mem a (LENGTH('a) div 8)
      then Some (of_bytes (map (\<lambda>i. the (mem (a + of_nat i))) [0..<LENGTH('a) div 8]))
      else None)"

definition store_size_t ::
  "('a::len word \<Rightarrow> 8 word option) \<Rightarrow> 'a word \<Rightarrow> 'a word \<Rightarrow> ('a word \<Rightarrow> 8 word option) option" where
  "store_size_t mem a v =
     (if accessible mem a (LENGTH('a) div 8)
      then Some (\<lambda>x. if x - a < sizeof_size_t then Some (ucast (drop_bit (8 * unat (x - a)) v))
                      else mem x)
      else None)"

definition memset ::
  "('a::len word \<Rightarrow> 8 word option) \<Rightarrow> 'a word \<Rightarrow> 8 word \<Rightarrow> 'a word \<Rightarrow> ('a word \<Rightarrow> 8 word option) option" where
  "memset mem a c n =
     (if accessible mem a (unat n) then Some (\<lambda>x. if x - a < n then Some c else mem x) else None)"

definition memcpy ::
  "('a::len word \<Rightarrow> 8 word option) \<Rightarrow> 'a word \<Rightarrow> 'a word \<Rightarrow> 'a word \<Rightarrow> ('a word \<Rightarrow> 8 word option) option" where
  "memcpy mem dst src n =
     (if accessible mem src (unat n) \<and> accessible mem dst (unat n)
      then Some (\<lambda>x. if x - dst < n then mem (src + (x - dst)) else mem x)
      else None)"

definition redirect_RtlAllocateHeap ::
  "'a::len heap_platform \<Rightarrow> 'a heap_state \<Rightarrow> 'a word \<Rightarrow> 32 word \<Rightarrow> 'a word \<Rightarrow>
   ('a word, 'a heap_state) outcome" where
  "redirect_RtlAllocateHeap H s heap flags sz =
     (if heap = ProcessHeap H then
        (let sz' = sz + sizeof_size_t;
             mem = global_heap_alloc H sz' (heap_trace s);
             s1 = s\<lparr>heap_trace := heap_trace s @ [Ev_global_heap_alloc sz' mem]\<rparr>
         in if mem = 0 then Done 0 s1
            else
              (case store_size_t (bytes s1) mem sz' of
                 None \<Rightarrow> Fault
               | Some b1 \<Rightarrow>
                  (if TEST HEAP_ZERO_MEMORY flags then
                     (case memset b1 (mem + sizeof_size_t) 0 (sz' - sizeof_size_t) of
                        None \<Rightarrow> Fault
                      | Some b2 \<Rightarrow> Done (mem + sizeof_size_t) (s1\<lparr>bytes := b2\<rparr>))
                   else Done (mem + sizeof_size_t) (s1\<lparr>bytes := b1\<rparr>))))
      else Done (RtlAllocateHeap H heap flags sz)
             (s\<lparr>heap_trace := heap_trace s @ [Ev_RtlAllocateHeap heap flags sz]\<rparr>))"

definition redirect_RtlFreeHeap ::
  "'a::len heap_platform \<Rightarrow> 'a heap_state \<Rightarrow> 'a word \<Rightarrow> 32 word \<Rightarrow> 'a word \<Rightarrow>
   (bool, 'a heap_state) outcome" where
  "redirect_RtlFreeHeap H s heap flags ptr =
     (if heap = ProcessHeap H \<and> is_dynamo_address H ptr then
        (if ptr \<noteq> 0 then
           (let ptr' = ptr - sizeof_size_t in
            case load_size_t (bytes s) ptr' of
              None \<Rightarrow> Fault
            | Some sz \<Rightarrow> Done True (s\<lparr>heap_trace := heap_trace s @ [Ev_global_heap_free ptr' sz]\<rparr>))
         else Done False s)
      else Done (RtlFreeHeap H heap flags ptr)
             (s\<lparr>heap_trace := heap_trace s @ [Ev_RtlFreeHeap heap flags ptr]\<rparr>))"

definition redirect_RtlSizeHeap ::
  "'a::len heap_platform \<Rightarrow> 'a heap_state \<Rightarrow> 'a word \<Rightarrow> 32 word \<Rightarrow> 'a word \<Rightarrow>
   ('a word, 'a heap_state) outcome" where
  "redirect_RtlSizeHeap H s heap flags ptr =
     (if heap = ProcessHeap H \<and> is_dynamo_address H ptr then
        (if ptr \<noteq> 0 then
           (case load_size_t (bytes s) (ptr - sizeof_size_t) of
              None \<Rightarrow> Fault
            | Some sz \<Rightarrow> Done sz s)
         else Done 0 s)
      else Done (RtlSizeHeap H heap flags ptr)
             (s\<lparr>heap_trace := heap_trace s @ [Ev_RtlSizeHeap heap flags ptr]\<rparr>))"

definition redirect_RtlReAllocateHeap ::
  "'a::len heap_platform \<Rightarrow> 'a heap_state \<Rightarrow> 'a word \<Rightarrow> 32 word \<Rightarrow> 'a word \<Rightarrow> 'a word \<Rightarrow>
   ('a word, 'a heap_state) outcome" where
  "redirect_RtlReAllocateHeap H s heap flags ptr sz =
     (if heap = ProcessHeap H \<and> (is_dynamo_address H ptr \<or> ptr = 0) then
        obind (redirect_RtlAllocateHeap H s heap flags sz) (\<lambda>buf s1.
          obind (if buf \<noteq> 0 then
                   (case load_size_t (bytes s1) (ptr - sizeof_size_t) of
                      None \<Rightarrow> Fault
                    | Some old_size \<Rightarrow>
                       (case memcpy (bytes s1) buf ptr (min old_size sz) of
                          None \<Rightarrow> Fault
                        | Some b \<Rightarrow> Done () (s1\<lparr>bytes := b\<rparr>)))
                 else Done () s1)
            (\<lambda>u s2. obind (redirect_RtlFreeHeap H s2 heap flags ptr) (\<lambda>r s3. Done buf s3)))
      else Done (RtlReAllocateHeap H heap flags ptr sz)
             (s\<lparr>heap_trace := heap_trace s @ [Ev_RtlReAllocateHeap heap flags ptr sz]\<rparr>))"

subsection \<open>The registry order as the specification states it\<close>





subsection \<open>The registry order as the code keeps it\<close>

text \<open>
  \<open>ptrs\<close> is the registry as the sequence of its nodes. In a well-formed registry
  (\<open>reg_ok\<close>) the nodes are distinct and were all handed out by the allocator.
  \<open>follows s s'\<close> relates a registry to a later one: nodes have only been unlinked, or
  linked in fresh from the allocator, and the nodes present in both are in the same order
  in both. \<open>evolves\<close> is \<open>follows\<close> for a well-formed start, with a well-formed result;
  \<open>keeps s0 m\<close> says that a routine that returns leaves a registry that \<open>s0\<close> evolves
  to. \<open>before xs a b\<close>: in \<open>xs\<close>, \<open>b\<close> occurs behind the first \<open>a\<close>.
\<close>

definition ptrs :: "'a::len loader_state \<Rightarrow> privmod_ptr list" where
  "ptrs s = map fst (modlist s)"

definition reg_ok :: "'a::len loader_state \<Rightarrow> bool" where
  "reg_ok s \<longleftrightarrow> distinct (ptrs s) \<and> (\<forall>p \<in> set (ptrs s). \<exists>i < next_alloc s. p = Heap_mod i)"

definition follows :: "'a::len loader_state \<Rightarrow> 'a loader_state \<Rightarrow> bool" where
  "follows s s' \<longleftrightarrow>
     next_alloc s \<le> next_alloc s' \<and>
     (\<forall>p \<in> set (ptrs s'). p \<in> set (ptrs s) \<or> (\<exists>i. next_alloc s \<le> i \<and> i < next_alloc s' \<and> p = Heap_mod i)) \<and>
     distinct (ptrs s') \<and>
     filter (\<lambda>p. p \<in> set (ptrs s')) (ptrs s) = filter (\<lambda>p. p \<in> set (ptrs s)) (ptrs s')"

definition evolves :: "'a::len loader_state \<Rightarrow> 'a loader_state \<Rightarrow> bool" where
  "evolves s s' \<longleftrightarrow> (reg_ok s \<longrightarrow> reg_ok s' \<and> follows s s')"

definition keeps :: "'a::len loader_state \<Rightarrow> ('r, 'a loader_state) outcome \<Rightarrow> bool" where
  "keeps s0 m \<longleftrightarrow> (\<forall>r s'. m = Done r s' \<longrightarrow> evolves s0 s')"



section \<open>Example platforms and states\<close>

text \<open>
  A module used in the examples: \<open>leaf.dll\<close> at base \<open>0x10000000\<close>, and a platform on
  which it has no entry point, no imports, and sits at its preferred base.
\<close>

definition leaf_mod :: "64 privmod_t" where
  "leaf_mod = \<lparr>base = 0x10000000, size_f = 0x3000, name = ''leaf.dll'', ref_count = 1,
                externally_loaded = False\<rparr>"

definition no_desc :: IMAGE_IMPORT_DESCRIPTOR where
  "no_desc = \<lparr>OriginalFirstThunk = 0, TimeDateStamp = 0, ForwarderChain = 0, Name = 0,
               FirstThunk = 0\<rparr>"

definition leaf_platform :: "64 platform" where
  "leaf_platform =
     \<lparr>os_open = (\<lambda>f. f = ''leaf.dll''),
      os_file_exists = (\<lambda>f. f = ''leaf.dll''),
      map_image = (\<lambda>f tr. (0x10000000, 0x3000)),
      get_module_preferred_base = (\<lambda>b. b),
      module_file_relocatable = (\<lambda>b. True),
      module_rebase = (\<lambda>b sz d. True),
      get_dll_short_name = (\<lambda>b. ''leaf.dll''),
      get_module_entry = (\<lambda>b. 0),
      dllmain = (\<lambda>e b r. False),
      get_proc_address_ex = (\<lambda>b nm. (0, None)),
      import_directory = (\<lambda>b. (0, 0)),
      is_readable_without_exception = (\<lambda>a sz. True),
      read_import_descriptor = (\<lambda>a. no_desc),
      read_cstr = (\<lambda>a. []),
      protect_ok = (\<lambda>p. True),
      systemroot = ''c:/windows'',
      redirect_addr = (\<lambda>f. 0x70000000)\<rparr>"


text \<open>The state after \<open>loader_init\<close> on a process without \<open>user32.dll\<close> and without client
  libraries: the two externally loaded modules, \<open>dynamorio.dll\<close> in front of \<open>ntdll.dll\<close>.\<close>

definition init_state :: "64 loader_state" where
  "init_state =
     \<lparr>modlist =
        [(Heap_mod 1, \<lparr>base = 0x71000000, size_f = 0x200000, name = ''dynamorio.dll'',
                       ref_count = 1, externally_loaded = True\<rparr>),
         (Heap_mod 0, \<lparr>base = 0x77000000, size_f = 0x100000, name = ''ntdll.dll'',
                       ref_count = 1, externally_loaded = True\<rparr>)],
      next_alloc = 2,
      dynamo_heap_initialized = True,
      privmod_static = [],
      search_paths = (\<lambda>i. []),
      forwmodpath = replicate 260 (CHR 0x00),
      thunk_mem = (\<lambda>a. 0),
      page_prot = (\<lambda>p. 0x02),
      trace = []\<rparr>"

text \<open>The state once \<open>leaf.dll\<close> is loaded, held once and held twice.\<close>

definition leaf_state :: "64 loader_state" where
  "leaf_state = init_state\<lparr>modlist := (Heap_mod 2, leaf_mod) # modlist init_state, next_alloc := 3\<rparr>"


text \<open>
  Platforms on which the image prefers base \<open>0x400000\<close> but is mapped at
  \<open>0x10000000\<close>: relocatable; without a relocation directory; relocatable with a
  relocation that fails.
\<close>

definition displaced_platform :: "64 platform" where
  "displaced_platform = leaf_platform\<lparr>get_module_preferred_base := (\<lambda>b. 0x400000)\<rparr>"

definition fixed_platform :: "64 platform" where
  "fixed_platform = displaced_platform\<lparr>module_file_relocatable := (\<lambda>b. False)\<rparr>"

definition bad_reloc_platform :: "64 platform" where
  "bad_reloc_platform = displaced_platform\<lparr>module_rebase := (\<lambda>b sz d. False)\<rparr>"

text \<open>
  \<open>leaf.dll\<close> with one import descriptor, for \<open>ntdll.dll\<close>: the lookup table is at RVA
  \<open>0x2100\<close>, the IAT at RVA \<open>0x2300\<close>, and the one name imported, at RVA \<open>0x2400\<close>, is a
  function that \<open>ntdll.dll\<close> does not export.
\<close>

definition import_desc :: IMAGE_IMPORT_DESCRIPTOR where
  "import_desc = \<lparr>OriginalFirstThunk = 0x2100, TimeDateStamp = 0, ForwarderChain = 0,
                   Name = 0x2200, FirstThunk = 0x2300\<rparr>"

definition import_platform :: "64 platform" where
  "import_platform =
     leaf_platform
       \<lparr>import_directory := (\<lambda>b. if b = 0x10000000 then (0x2000, 40) else (0, 0)),
        read_import_descriptor := (\<lambda>a. if a = 0x10002000 then import_desc else no_desc),
        read_cstr := (\<lambda>a. if a = 0x10002200 then ''ntdll.dll''
                          else if a = 0x10002402 then ''NoSuchFunction'' else [])\<rparr>"

text \<open>The image imports ordinal 5: the slot of the lookup table and of the IAT has the high bit set.\<close>

definition ordinal_state :: "64 loader_state" where
  "ordinal_state =
     init_state\<lparr>thunk_mem :=
       (\<lambda>a. if a = 0x10002100 \<or> a = 0x10002300 then 0x8000000000000005 else 0)\<rparr>"

text \<open>The image imports by name; \<open>leaf.dll\<close> is in the registry and its imports are to be processed.\<close>

definition byname_state :: "64 loader_state" where
  "byname_state =
     leaf_state\<lparr>thunk_mem := (\<lambda>a. if a = 0x10002100 \<or> a = 0x10002300 then 0x2400 else 0)\<rparr>"









text \<open>
  \<open>leaf.dll\<close> imports \<open>A\<close> and \<open>B\<close> from \<open>kernel32.dll\<close>, which forwards \<open>A\<close> to
  \<open>LONGNAME.f\<close> and \<open>B\<close> to \<open>NTDLL.g\<close>; \<open>longname.dll\<close> exports \<open>f\<close> and \<open>ntdll.dll\<close>
  exports \<open>g\<close>. \<open>kernel32.dll\<close> and \<open>longname.dll\<close> are resident.
\<close>

definition forward_platform :: "64 platform" where
  "forward_platform =
     leaf_platform
       \<lparr>get_proc_address_ex :=
          (\<lambda>b nm. if b = 0x76000000 \<and> nm = ''A'' then (0, Some ''LONGNAME.f'')
                   else if b = 0x76000000 \<and> nm = ''B'' then (0, Some ''NTDLL.g'')
                   else if b = 0x30000000 \<and> nm = ''f'' then (0x30001000, None)
                   else if b = 0x77000000 \<and> nm = ''g'' then (0x77001000, None)
                   else (0, None)),
        import_directory := (\<lambda>b. if b = 0x10000000 then (0x2000, 40) else (0, 0)),
        read_import_descriptor := (\<lambda>a. if a = 0x10002000 then import_desc else no_desc),
        read_cstr := (\<lambda>a. if a = 0x10002200 then ''kernel32.dll''
                          else if a = 0x10002402 then ''A''
                          else if a = 0x10002412 then ''B'' else [])\<rparr>"

definition forward_registry :: "(privmod_ptr \<times> 64 privmod_t) list" where
  "forward_registry =
     (Heap_mod 3, \<lparr>base = 0x76000000, size_f = 0x100000, name = ''kernel32.dll'',
                    ref_count = 1, externally_loaded = False\<rparr>) #
     (Heap_mod 2, \<lparr>base = 0x30000000, size_f = 0x10000, name = ''longname.dll'',
                    ref_count = 1, externally_loaded = False\<rparr>) #
     modlist init_state"

text \<open>The lookup table names \<open>A\<close>, then \<open>B\<close>.\<close>

definition forward_state :: "64 loader_state" where
  "forward_state =
     init_state
       \<lparr>modlist := forward_registry, next_alloc := 4,
        thunk_mem := (\<lambda>a. if a = 0x10002100 then 0x2400 else if a = 0x10002108 then 0x2410 else 0)\<rparr>"

text \<open>The lookup table names \<open>B\<close> only.\<close>

definition forward_state_B :: "64 loader_state" where
  "forward_state_B =
     init_state
       \<lparr>modlist := forward_registry, next_alloc := 4,
        thunk_mem := (\<lambda>a. if a = 0x10002100 then 0x2410 else 0)\<rparr>"


text \<open>
  A process heap handle, the host's address range \<open>[0x50000000, 0x50100000)\<close>, which is
  the memory that can be accessed, and native routines that accept a \<open>NULL\<close> block.
\<close>

definition heap_platform0 :: "64 heap_platform" where
  "heap_platform0 =
     \<lparr>ProcessHeap = 0x140000,
      is_dynamo_address = (\<lambda>a. 0x50000000 \<le> a \<and> a < 0x50100000),
      global_heap_alloc = (\<lambda>sz tr. 0x50000040),
      RtlAllocateHeap = (\<lambda>h f sz. 0x150000),
      RtlReAllocateHeap = (\<lambda>h f p sz. 0x150000),
      RtlFreeHeap = (\<lambda>h f p. True),
      RtlSizeHeap = (\<lambda>h f p. if p = 0 then - 1 else 16)\<rparr>"

definition heap_state0 :: "64 heap_state" where
  "heap_state0 =
     \<lparr>bytes = (\<lambda>a. if 0x50000000 \<le> a \<and> a < 0x50100000 then Some 0xCD else None),
      heap_trace = []\<rparr>"

section \<open>Unfolding the routines\<close>

lemma obind_simps:
  "obind (Done r s) f = f r s"
  "obind Fault f = Fault"
  "obind Timeout f = Timeout"
  by (simp_all add: obind_def)

lemma obind_weak_cong: "m = m' \<Longrightarrow> obind m f = obind m' f"
  by simp


lemma routines_at_Suc:
  "r_load (routines_at (Suc n) E) = privload_load_step (routines_at n E) E"
  "r_load_finalize (routines_at (Suc n) E) = privload_load_finalize_step n (routines_at n E) E"
  "r_process_imports (routines_at (Suc n) E) = privload_process_imports_step (routines_at n E) E"
  "r_process_imports_loop (routines_at (Suc n) E) = process_imports_loop_step (routines_at n E) E"
  "r_process_thunks_loop (routines_at (Suc n) E) = process_thunks_loop_step (routines_at n E) E"
  "r_process_one_import (routines_at (Suc n) E) = privload_process_one_import_step (routines_at n E) E"
  "r_forwarder_loop (routines_at (Suc n) E) = forwarder_loop_step (routines_at n E) E"
  "r_locate_and_load (routines_at (Suc n) E) = privload_locate_and_load_step (routines_at n E) E"
  "r_locate_client_dirs (routines_at (Suc n) E) = locate_client_dirs_step (routines_at n E) E"
  by (simp_all add: Let_def)

lemma routines_at_numeral:
  "r_load (routines_at (numeral k) E) = privload_load_step (routines_at (pred_numeral k) E) E"
  "r_load_finalize (routines_at (numeral k) E) = privload_load_finalize_step (pred_numeral k) (routines_at (pred_numeral k) E) E"
  "r_process_imports (routines_at (numeral k) E) = privload_process_imports_step (routines_at (pred_numeral k) E) E"
  "r_process_imports_loop (routines_at (numeral k) E) = process_imports_loop_step (routines_at (pred_numeral k) E) E"
  "r_process_thunks_loop (routines_at (numeral k) E) = process_thunks_loop_step (routines_at (pred_numeral k) E) E"
  "r_process_one_import (routines_at (numeral k) E) = privload_process_one_import_step (routines_at (pred_numeral k) E) E"
  "r_forwarder_loop (routines_at (numeral k) E) = forwarder_loop_step (routines_at (pred_numeral k) E) E"
  "r_locate_and_load (routines_at (numeral k) E) = privload_locate_and_load_step (routines_at (pred_numeral k) E) E"
  "r_locate_client_dirs (routines_at (numeral k) E) = locate_client_dirs_step (routines_at (pred_numeral k) E) E"
  by (simp_all add: numeral_eq_Suc Let_def)

lemmas unload_numeral =
  privload_unload.simps(2) [of "pred_numeral k", folded numeral_eq_Suc]
  privload_unload_imports.simps(2) [of "pred_numeral k", folded numeral_eq_Suc]
  unload_imports_loop.simps(2) [of "pred_numeral k", folded numeral_eq_Suc]
  for k

lemma tolower_Char:
  "tolower (Char b0 b1 b2 b3 b4 b5 b6 b7) =
     (if \<not> b7 \<and> b6 \<and> \<not> b5 \<and> (b0 \<or> b1 \<or> b2 \<or> b3 \<or> b4) \<and> \<not> (b4 \<and> b3 \<and> (b2 \<or> (b1 \<and> b0)))
      then Char b0 b1 b2 b3 b4 True b6 b7
      else Char b0 b1 b2 b3 b4 b5 b6 b7)"
  by (cases b0; cases b1; cases b2; cases b3; cases b4; cases b5; cases b6; cases b7;
      simp add: tolower_def char_of_def bit_Suc_0_iff)

lemmas loader_eval =
  load_private_library_def unload_private_library_def
  privload_load_def privload_load_finalize_def privload_process_imports_def
  privload_process_one_import_def privload_locate_and_load_def
  privload_lookup_def privload_lookup_by_base_def strcasecmp_eq_def tolower_Char
  routines_at_numeral routines_at_Suc unload_numeral obind_simps
  privload_load_step_def privload_load_finalize_step_def privload_process_imports_step_def
  process_imports_loop_step_def process_thunks_loop_step_def privload_process_one_import_step_def
  forwarder_loop_step_def privload_locate_and_load_step_def locate_client_dirs_step_def
  privload_map_and_relocate_def privload_insert_def deref_def privload_get_import_descriptor_def
  record_search_path_def
  RVA_TO_VA_def protect_virtual_memory_def PAGE_START_def PAGE_SIZE_def PAGE_READWRITE_def
  TEST_def IMAGE_ORDINAL_FLAG_def sizeof_size_t_def sizeof_IMAGE_IMPORT_DESCRIPTOR_def
  privload_call_entry_def privload_redirect_imports_def redirect_ntdll_def redirect_kernel32_def
  update_mod_def unlink_mod_def mk_modpath_def cstr_def cstr_of_def snprintf_def buf_store_def
  MAXIMUM_PATH_def PRIVMOD_STATIC_NUM_def NUL_def
  DLL_PROCESS_ATTACH_def DLL_PROCESS_DETACH_def Let_def

lemma leaf_platform_simps:
  "os_open leaf_platform = (\<lambda>f. f = ''leaf.dll'')"
  "os_file_exists leaf_platform = (\<lambda>f. f = ''leaf.dll'')"
  "map_image leaf_platform = (\<lambda>f tr. (0x10000000, 0x3000))"
  "get_module_preferred_base leaf_platform = (\<lambda>b. b)"
  "module_file_relocatable leaf_platform = (\<lambda>b. True)"
  "module_rebase leaf_platform = (\<lambda>b sz d. True)"
  "get_dll_short_name leaf_platform = (\<lambda>b. ''leaf.dll'')"
  "get_module_entry leaf_platform = (\<lambda>b. 0)"
  "dllmain leaf_platform = (\<lambda>e b r. False)"
  "get_proc_address_ex leaf_platform = (\<lambda>b nm. (0, None))"
  "import_directory leaf_platform = (\<lambda>b. (0, 0))"
  "is_readable_without_exception leaf_platform = (\<lambda>a sz. True)"
  "read_import_descriptor leaf_platform = (\<lambda>a. no_desc)"
  "read_cstr leaf_platform = (\<lambda>a. [])"
  "protect_ok leaf_platform = (\<lambda>p. True)"
  "systemroot leaf_platform = ''c:/windows''"
  "redirect_addr leaf_platform = (\<lambda>f. 0x70000000)"
  by (simp_all add: leaf_platform_def)

lemma init_state_simps:
  "modlist init_state =
     [(Heap_mod 1, \<lparr>base = 0x71000000, size_f = 0x200000, name = ''dynamorio.dll'',
                    ref_count = 1, externally_loaded = True\<rparr>),
      (Heap_mod 0, \<lparr>base = 0x77000000, size_f = 0x100000, name = ''ntdll.dll'',
                    ref_count = 1, externally_loaded = True\<rparr>)]"
  "next_alloc init_state = 2"
  "dynamo_heap_initialized init_state = True"
  "privmod_static init_state = []"
  "search_paths init_state = (\<lambda>i. [])"
  "forwmodpath init_state = replicate 260 (CHR 0x00)"
  "thunk_mem init_state = (\<lambda>a. 0)"
  "page_prot init_state = (\<lambda>p. 0x02)"
  "trace init_state = []"
  by (simp_all add: init_state_def)

lemmas example_simps =
  import_platform_def import_desc_def no_desc_def ordinal_state_def byname_state_def
  leaf_state_def leaf_mod_def leaf_platform_simps init_state_simps




lemmas forward_simps = forward_platform_def forward_registry_def forward_state_def forward_state_B_def

lemma list_update_replicate_same: "(replicate n x)[i := x] = replicate n x"
  by (induction n arbitrary: i) (auto split: nat.splits)

lemma takeWhile_replicate_stop: "takeWhile (\<lambda>c. c \<noteq> x) (replicate n x) = []"
  by (cases n) simp_all


lemma upt_eval: "[0..<numeral k] = [0..<pred_numeral k] @ [pred_numeral k]"
  by (simp add: numeral_eq_Suc)

lemmas heap_eval = redirect_RtlAllocateHeap_def redirect_RtlFreeHeap_def redirect_RtlSizeHeap_def
  redirect_RtlReAllocateHeap_def store_size_t_def load_size_t_def memset_def memcpy_def accessible_def
  sizeof_size_t_def TEST_def HEAP_ZERO_MEMORY_def obind_simps Let_def heap_platform0_def heap_state0_def
  upt_eval



lemma update_mod_ptrs: "map fst (update_mod p f ml) = map fst ml"
  by (induction ml) (auto simp: update_mod_def)

section \<open>The order of the registry\<close>




subsection \<open>Where a node is linked in\<close>

text \<open>Inserting behind the node at index \<open>i\<close> leaves the first \<open>i + 1\<close> nodes in place.\<close>

lemma insert_after_nth:
  "distinct (map fst xs) \<Longrightarrow> i < length xs \<Longrightarrow>
   insert_after (fst (xs ! i)) x xs = take (Suc i) xs @ x # drop (Suc i) xs"
proof (induction xs arbitrary: i)
  case Nil
  then show ?case by simp
next
  case (Cons y ys)
  show ?case
  proof (cases i)
    case 0
    then show ?thesis by simp
  next
    case (Suc j)
    with Cons.prems have j: "j < length ys" and d: "distinct (map fst ys)"
      and ne: "fst y \<noteq> fst (ys ! j)"
      by (auto simp: image_iff)
    from Cons.IH [OF d j] Suc ne show ?thesis by simp
  qed
qed

text \<open>
  With the heap up, a root goes to the front and a module loaded for the dependent at
  index \<open>i\<close> goes to index \<open>i + 1\<close>; the other nodes keep their order.
\<close>

lemma privload_insert_position:
  assumes "dynamo_heap_initialized s"
    and "distinct (map fst (modlist s))"
    and "p = Heap_mod (next_alloc s)"
    and "m = \<lparr>base = b, size_f = sz, name = n, ref_count = 1, externally_loaded = False\<rparr>"
  shows
   "privload_insert s None b sz n =
      Done (Some p) (s\<lparr>next_alloc := Suc (next_alloc s), modlist := (p, m) # modlist s\<rparr>) \<and>
    (\<forall>i < length (modlist s).
       (\<exists>s'. privload_insert s (Some (fst (modlist s ! i))) b sz n = Done (Some p) s' \<and>
             modlist s' = take (Suc i) (modlist s) @ (p, m) # drop (Suc i) (modlist s) \<and>
             modlist s' ! i = modlist s ! i \<and>
             modlist s' ! Suc i = (p, m)))"
proof (intro conjI allI impI)
  show "privload_insert s None b sz n =
      Done (Some p) (s\<lparr>next_alloc := Suc (next_alloc s), modlist := (p, m) # modlist s\<rparr>)"
    using assms by (simp add: privload_insert_def Let_def)
next
  fix i assume i: "i < length (modlist s)"
  let ?l = "take (Suc i) (modlist s) @ (p, m) # drop (Suc i) (modlist s)"
  from i have mem: "fst (modlist s ! i) \<in> fst ` set (modlist s)" by simp
  have 1: "privload_insert s (Some (fst (modlist s ! i))) b sz n =
      Done (Some p) (s\<lparr>next_alloc := Suc (next_alloc s), modlist := ?l\<rparr>)"
    using assms mem insert_after_nth [OF assms(2) i, of "(p, m)"]
    by (simp add: privload_insert_def Let_def)
  from i have 2: "?l ! i = modlist s ! i"
    by (simp add: nth_append)
  from i have 3: "?l ! Suc i = (p, m)"
    by (simp add: nth_append min_def)
  from 1 2 3 show "\<exists>s'. privload_insert s (Some (fst (modlist s ! i))) b sz n = Done (Some p) s' \<and>
             modlist s' = ?l \<and> modlist s' ! i = modlist s ! i \<and> modlist s' ! Suc i = (p, m)"
    by simp
qed

subsection \<open>Every routine keeps the order of the resident modules\<close>

lemma filter_mem_self: "filter (\<lambda>p. p \<in> set xs) xs = xs"
  by (simp add: filter_id_conv)


lemma follows_reg_ok: "reg_ok s \<Longrightarrow> follows s s' \<Longrightarrow> reg_ok s'"
  unfolding reg_ok_def follows_def
  by (metis (no_types, lifting) less_le_trans)




lemma evolves_same_reg:
  "ptrs s' = ptrs s \<Longrightarrow> next_alloc s' = next_alloc s \<Longrightarrow> evolves s s'"
  by (auto simp: evolves_def follows_def reg_ok_def)

lemma keeps_simps [simp]:
  "keeps s0 (Done r s') = evolves s0 s'"
  "keeps s0 Fault"
  "keeps s0 Timeout"
  by (simp_all add: keeps_def)


lemma evolves_cong_reg:
  "ptrs s' = ptrs s \<Longrightarrow> next_alloc s' = next_alloc s \<Longrightarrow> evolves s0 s' = evolves s0 s"
  by (simp add: evolves_def follows_def reg_ok_def)

lemma evolves_field_upd [simp]:
  "evolves s0 (s\<lparr>trace := t\<rparr>) = evolves s0 s"
  "evolves s0 (s\<lparr>thunk_mem := tm\<rparr>) = evolves s0 s"
  "evolves s0 (s\<lparr>page_prot := pp\<rparr>) = evolves s0 s"
  "evolves s0 (s\<lparr>forwmodpath := fp\<rparr>) = evolves s0 s"
  "evolves s0 (s\<lparr>search_paths := sp\<rparr>) = evolves s0 s"
  "evolves s0 (s\<lparr>privmod_static := ps\<rparr>) = evolves s0 s"
  by (rule evolves_cong_reg; simp add: ptrs_def)+

lemma evolves_update_mod [simp]:
  "evolves s0 (s\<lparr>modlist := update_mod q f (modlist s)\<rparr>) = evolves s0 s"
  by (rule evolves_cong_reg) (simp_all add: ptrs_def update_mod_ptrs)




lemma call_entry_reg:
  "ptrs (snd (privload_call_entry E s m r)) = ptrs s"
  "next_alloc (snd (privload_call_entry E s m r)) = next_alloc s"
  by (simp_all add: privload_call_entry_def Let_def ptrs_def)

lemma evolves_call_entry [simp]:
  "evolves s0 (snd (privload_call_entry E s m r)) = evolves s0 s"
  by (rule evolves_cong_reg) (simp_all add: call_entry_reg)





lemma map_and_relocate_reg:
  "privload_map_and_relocate E s f = (r, s') \<Longrightarrow> evolves s0 s' = evolves s0 s"
  by (rule evolves_cong_reg)
     (auto simp: privload_map_and_relocate_def Let_def ptrs_def split: if_splits prod.splits)

lemma protect_reg:
  "protect_virtual_memory E s pg np op = (ok, op', s') \<Longrightarrow> evolves s0 s' = evolves s0 s"
  by (rule evolves_cong_reg)
     (auto simp: protect_virtual_memory_def ptrs_def split: if_splits)

lemma call_entry_reg':
  "privload_call_entry E s m r = (ok, s') \<Longrightarrow> evolves s0 s' = evolves s0 s"
  by (rule evolves_cong_reg)
     (auto simp: privload_call_entry_def Let_def ptrs_def split: if_splits)



lemma evolves_snd_simps [simp]:
  "evolves s0 (snd (privload_map_and_relocate E s f)) = evolves s0 s"
  "evolves s0 (snd (snd (protect_virtual_memory E s pg np op))) = evolves s0 s"
  by (metis map_and_relocate_reg prod.collapse, metis protect_reg prod.collapse)





















lemma reg_ok_cong: "ptrs s' = ptrs s \<Longrightarrow> next_alloc s' = next_alloc s \<Longrightarrow> reg_ok s' = reg_ok s"
  by (simp add: reg_ok_def)






section \<open>Imports by ordinal\<close>

text \<open>
  C2 at a failing input. \<open>leaf.dll\<close> imports ordinal 5 from \<open>ntdll.dll\<close>: the slot has
  the high bit set. \<open>privload_process_one_import\<close> returns true for it, so the load does
  not fail: \<open>load_private_library\<close> returns the base and the module is in the registry.
  The slot of the IAT is left as it was, unresolved.
\<close>

theorem ordinal_import_accepted:
  "\<exists>s'. load_private_library 10 import_platform ordinal_state ''leaf.dll'' = Done 0x10000000 s' \<and>
         privload_lookup s' ''leaf.dll'' = Some (Heap_mod 2) \<and>
         thunk_mem s' 0x10002300 = 0x8000000000000005"
  supply obind_weak_cong [cong] routines_at.simps [simp del]
  by (simp add: loader_eval example_simps)

section \<open>Protection of the IAT pages\<close>

text \<open>
  C3 at a failing input. \<open>leaf.dll\<close> imports by name a function that \<open>ntdll.dll\<close> does
  not export. \<open>privload_process_imports\<close> has made the page of the IAT writable, leaves
  its inner loop with \<open>return false\<close> when the import is not found, and returns with the
  page still \<open>PAGE_READWRITE\<close>; its protection had been \<open>0x02\<close> (read-only).
\<close>

theorem process_imports_leaves_page_writable:
  "\<exists>s'. privload_process_imports 10 import_platform byname_state (Heap_mod 2) = Done False s' \<and>
         page_prot byname_state 0x10002000 = 0x02 \<and>
         page_prot s' 0x10002000 = PAGE_READWRITE"
  supply obind_weak_cong [cong] routines_at.simps [simp del]
  by (simp add: loader_eval example_simps)

section \<open>Loading twice\<close>

text \<open>
  C4 at a failing input. \<open>leaf.dll\<close> is not resident and has no imports. Two calls of
  \<open>load_private_library\<close> return the same base; the second finds the module and does not
  count a reference, so one call of \<open>unload_private_library\<close> brings the count to zero,
  returns true, removes the module from the registry and unmaps it.
\<close>

theorem load_twice_unload_once:
  "\<exists>s1 s2 s3.
     load_private_library 10 leaf_platform init_state ''leaf.dll'' = Done 0x10000000 s1 \<and>
     load_private_library 10 leaf_platform s1 ''leaf.dll'' = Done 0x10000000 s2 \<and>
     unload_private_library 10 leaf_platform s2 0x10000000 = Done True s3 \<and>
     privload_lookup_by_base s3 0x10000000 = None \<and>
     privload_lookup s3 ''leaf.dll'' = None \<and>
     Ev_unmap_file True 0x10000000 0x3000 \<in> set (trace s3)"
  supply obind_weak_cong [cong] routines_at.simps [simp del]
  by (simp add: loader_eval example_simps)

section \<open>The size header of the private allocator\<close>

text \<open>
  C5 at a failing input. \<open>redirect_RtlAllocateHeap\<close> for 64 bytes on the process heap
  takes 72 bytes from the host heap at \<open>0x50000040\<close>, stores the total, 72, in the word
  at the start, and returns \<open>0x50000048\<close>, the address behind that word.
  \<open>redirect_RtlSizeHeap\<close> of the pointer returns the stored total, 72, not the 64
  requested; \<open>redirect_RtlFreeHeap\<close> returns true.
\<close>

theorem size_after_alloc:
  "\<exists>s1 s2.
     redirect_RtlAllocateHeap heap_platform0 heap_state0 0x140000 0 64 = Done 0x50000048 s1 \<and>
     load_size_t (bytes s1) 0x50000040 = Some 72 \<and>
     redirect_RtlSizeHeap heap_platform0 s1 0x140000 0 0x50000048 = Done 72 s1 \<and>
     redirect_RtlFreeHeap heap_platform0 s1 0x140000 0 0x50000048 = Done True s2"
  supply obind_weak_cong [cong]
  by (simp add: heap_eval)

section \<open>NULL blocks\<close>

text \<open>
  C6 at a failing input. \<open>NULL\<close> is not an address of the host, so on the process heap
  \<open>redirect_RtlFreeHeap\<close> and \<open>redirect_RtlSizeHeap\<close> do not reach their branch for
  \<open>NULL\<close>: they call the native routines and return what those return (here true, and
  \<open>-1\<close>). \<open>redirect_RtlReAllocateHeap\<close> does take its private branch for \<open>NULL\<close> and
  allocates, but then reads the size header in front of the old block, at
  \<open>NULL - sizeof(size_t)\<close>, which is not accessible.
\<close>

theorem null_pointer_calls:
  "redirect_RtlFreeHeap heap_platform0 heap_state0 0x140000 0 0 =
     Done True (heap_state0\<lparr>heap_trace := [Ev_RtlFreeHeap 0x140000 0 0]\<rparr>) \<and>
   redirect_RtlSizeHeap heap_platform0 heap_state0 0x140000 0 0 =
     Done (- 1) (heap_state0\<lparr>heap_trace := [Ev_RtlSizeHeap 0x140000 0 0]\<rparr>) \<and>
   redirect_RtlReAllocateHeap heap_platform0 heap_state0 0x140000 0 0 64 = Fault"
  supply obind_weak_cong [cong]
  by (simp add: heap_eval)

section \<open>Forwarders\<close>

text \<open>
  C7 at a failing input. With only \<open>B\<close> imported, the forwarder \<open>NTDLL.g\<close> is resolved
  through the file name \<open>NTDLL.dll\<close>, found in the registry. With \<open>A\<close> imported before
  it, \<open>forwmodpath\<close> still holds \<open>LONGNAME.dll\<close> from the forwarder of \<open>A\<close>; for \<open>NTDLL.g\<close>
  the terminator is stored one position behind the end of \<open>NTDLL.dll\<close>, the character
  \<open>d\<close> left in between becomes part of the name, and the module looked up and searched
  for is \<open>NTDLL.dlld\<close>: the import of \<open>B\<close> fails and with it the load, although the
  first slot of the IAT has been bound.
\<close>

theorem forwarder_after_longer_forwarder:
  "\<exists>s1 s2.
     load_private_library 20 forward_platform forward_state_B ''leaf.dll'' = Done 0x10000000 s1 \<and>
     cstr_of (forwmodpath s1) = ''NTDLL.dll'' \<and>
     thunk_mem s1 0x10002300 = 0x77001000 \<and>
     load_private_library 20 forward_platform forward_state ''leaf.dll'' = Done 0 s2 \<and>
     cstr_of (forwmodpath s2) = ''NTDLL.dlld'' \<and>
     thunk_mem s2 0x10002300 = 0x30001000 \<and>
     thunk_mem s2 0x10002308 = 0"
  supply obind_weak_cong [cong] routines_at.simps [simp del]
  by (simp add: loader_eval example_simps forward_simps list_update_replicate_same
      takeWhile_replicate_stop)

section \<open>Mapping and relocation\<close>

text \<open>
  C8. Let the file open and be mapped at \<open>mp\<close> with preferred base \<open>pref\<close>. If
  \<open>pref \<noteq> mp\<close> and \<open>module_file_relocatable\<close> is false, \<open>privload_map_and_relocate\<close>
  unmaps the image and returns \<open>NULL\<close>, and \<open>privload_load\<close> fails; if \<open>pref \<noteq> mp\<close> and
  the image is relocatable, \<open>module_rebase\<close> is applied to the mapping with the
  displacement \<open>mp - pref\<close> (the base is returned when it succeeds, the image is
  unmapped and \<open>NULL\<close> returned when it does not). An image that sits at its preferred
  base is returned as mapped.
\<close>

theorem privload_map_and_relocate_displaced:
  assumes "os_open E filename"
    and "map_image E filename (trace s) = (mp, sz)"
    and "get_module_preferred_base E mp = pref"
    and "s1 = s\<lparr>trace := trace s @
           [Ev_os_open filename, Ev_map_file (dynamo_heap_initialized s) filename mp sz, Ev_os_close]\<rparr>"
  shows
   "(pref \<noteq> mp \<and> \<not> module_file_relocatable E mp \<longrightarrow>
       privload_map_and_relocate E s filename =
         ((0, sz), s1\<lparr>trace := trace s1 @ [Ev_unmap_file (dynamo_heap_initialized s) mp sz]\<rparr>) \<and>
       privload_load (Suc n) E s filename dependent =
         Done None (s1\<lparr>trace := trace s1 @ [Ev_unmap_file (dynamo_heap_initialized s) mp sz]\<rparr>)) \<and>
    (pref \<noteq> mp \<and> module_file_relocatable E mp \<and> module_rebase E mp sz (mp - pref) \<longrightarrow>
       privload_map_and_relocate E s filename =
         ((mp, sz), s1\<lparr>trace := trace s1 @ [Ev_module_rebase mp sz (mp - pref)]\<rparr>)) \<and>
    (pref \<noteq> mp \<and> module_file_relocatable E mp \<and> \<not> module_rebase E mp sz (mp - pref) \<longrightarrow>
       privload_map_and_relocate E s filename =
         ((0, sz), s1\<lparr>trace := trace s1 @
            [Ev_module_rebase mp sz (mp - pref), Ev_unmap_file (dynamo_heap_initialized s) mp sz]\<rparr>)) \<and>
    (pref = mp \<longrightarrow> privload_map_and_relocate E s filename = ((mp, sz), s1))"
  using assms
  by (auto simp: privload_map_and_relocate_def privload_load_def routines_at_Suc
      privload_load_step_def Let_def simp del: routines_at.simps)

theorem privload_map_and_relocate_displaced_witness:
  "os_open fixed_platform ''leaf.dll'' \<and>
   get_module_preferred_base fixed_platform 0x10000000 = 0x400000 \<and>
   \<not> module_file_relocatable fixed_platform 0x10000000 \<and>
   privload_map_and_relocate fixed_platform init_state ''leaf.dll'' =
     ((0, 0x3000),
      init_state\<lparr>trace := [Ev_os_open ''leaf.dll'', Ev_map_file True ''leaf.dll'' 0x10000000 0x3000,
                            Ev_os_close, Ev_unmap_file True 0x10000000 0x3000]\<rparr>) \<and>
   privload_load (Suc 0) fixed_platform init_state ''leaf.dll'' None =
     Done None
      (init_state\<lparr>trace := [Ev_os_open ''leaf.dll'', Ev_map_file True ''leaf.dll'' 0x10000000 0x3000,
                            Ev_os_close, Ev_unmap_file True 0x10000000 0x3000]\<rparr>) \<and>
   privload_map_and_relocate displaced_platform init_state ''leaf.dll'' =
     ((0x10000000, 0x3000),
      init_state\<lparr>trace := [Ev_os_open ''leaf.dll'', Ev_map_file True ''leaf.dll'' 0x10000000 0x3000,
                            Ev_os_close, Ev_module_rebase 0x10000000 0x3000 0xFC00000]\<rparr>) \<and>
   privload_map_and_relocate bad_reloc_platform init_state ''leaf.dll'' =
     ((0, 0x3000),
      init_state\<lparr>trace := [Ev_os_open ''leaf.dll'', Ev_map_file True ''leaf.dll'' 0x10000000 0x3000,
                            Ev_os_close, Ev_module_rebase 0x10000000 0x3000 0xFC00000,
                            Ev_unmap_file True 0x10000000 0x3000]\<rparr>) \<and>
   privload_map_and_relocate leaf_platform init_state ''leaf.dll'' =
     ((0x10000000, 0x3000),
      init_state\<lparr>trace := [Ev_os_open ''leaf.dll'', Ev_map_file True ''leaf.dll'' 0x10000000 0x3000,
                            Ev_os_close]\<rparr>)"
proof -
  note ps = fixed_platform_def displaced_platform_def bad_reloc_platform_def leaf_platform_simps
    init_state_simps
  note f = privload_map_and_relocate_displaced
    [where E = fixed_platform and s = init_state and filename = "''leaf.dll''"
       and mp = "0x10000000" and sz = "0x3000" and pref = "0x400000" and n = 0
       and dependent = None, OF _ _ _ refl]
  note d = privload_map_and_relocate_displaced
    [where E = displaced_platform and s = init_state and filename = "''leaf.dll''"
       and mp = "0x10000000" and sz = "0x3000" and pref = "0x400000" and n = 0
       and dependent = None, OF _ _ _ refl]
  note b = privload_map_and_relocate_displaced
    [where E = bad_reloc_platform and s = init_state and filename = "''leaf.dll''"
       and mp = "0x10000000" and sz = "0x3000" and pref = "0x400000" and n = 0
       and dependent = None, OF _ _ _ refl]
  note l = privload_map_and_relocate_displaced
    [where E = leaf_platform and s = init_state and filename = "''leaf.dll''"
       and mp = "0x10000000" and sz = "0x3000" and pref = "0x10000000" and n = 0
       and dependent = None, OF _ _ _ refl]
  have "os_open fixed_platform ''leaf.dll'' \<and>
        get_module_preferred_base fixed_platform 0x10000000 = 0x400000 \<and>
        \<not> module_file_relocatable fixed_platform 0x10000000"
    by (simp add: ps)
  moreover have "privload_map_and_relocate fixed_platform init_state ''leaf.dll'' =
     ((0, 0x3000),
      init_state\<lparr>trace := [Ev_os_open ''leaf.dll'', Ev_map_file True ''leaf.dll'' 0x10000000 0x3000,
                            Ev_os_close, Ev_unmap_file True 0x10000000 0x3000]\<rparr>) \<and>
   privload_load (Suc 0) fixed_platform init_state ''leaf.dll'' None =
     Done None
      (init_state\<lparr>trace := [Ev_os_open ''leaf.dll'', Ev_map_file True ''leaf.dll'' 0x10000000 0x3000,
                            Ev_os_close, Ev_unmap_file True 0x10000000 0x3000]\<rparr>)"
    using f by (simp add: ps)
  moreover have "privload_map_and_relocate displaced_platform init_state ''leaf.dll'' =
     ((0x10000000, 0x3000),
      init_state\<lparr>trace := [Ev_os_open ''leaf.dll'', Ev_map_file True ''leaf.dll'' 0x10000000 0x3000,
                            Ev_os_close, Ev_module_rebase 0x10000000 0x3000 0xFC00000]\<rparr>)"
    using d by (simp add: ps)
  moreover have "privload_map_and_relocate bad_reloc_platform init_state ''leaf.dll'' =
     ((0, 0x3000),
      init_state\<lparr>trace := [Ev_os_open ''leaf.dll'', Ev_map_file True ''leaf.dll'' 0x10000000 0x3000,
                            Ev_os_close, Ev_module_rebase 0x10000000 0x3000 0xFC00000,
                            Ev_unmap_file True 0x10000000 0x3000]\<rparr>)"
    using b by (simp add: ps)
  moreover have "privload_map_and_relocate leaf_platform init_state ''leaf.dll'' =
     ((0x10000000, 0x3000),
      init_state\<lparr>trace := [Ev_os_open ''leaf.dll'', Ev_map_file True ''leaf.dll'' 0x10000000 0x3000,
                            Ev_os_close]\<rparr>)"
    using l by (simp add: ps)
  ultimately show ?thesis by blast
qed

section \<open>Unloading by base\<close>




section \<open>The entry dispatcher\<close>

text \<open>
  C10. For every module and every reason code, when \<open>get_module_entry\<close> gives \<open>NULL\<close> or
  the module's base, \<open>privload_call_entry\<close> calls nothing (the state, with its trace of
  calls, is unchanged) and returns true. In particular \<open>privload_load_finalize\<close> of such
  a module returns true as soon as its imports have been processed: a load of a DLL
  without an entry point does not fail at the entry dispatch.
\<close>

theorem privload_call_entry_no_entry:
  "(get_module_entry E (base m) = 0 \<or> get_module_entry E (base m) = base m \<longrightarrow>
      privload_call_entry E s m reason = (True, s)) \<and>
   (deref s0 p = Some m0 \<and>
    privload_process_imports n E
      (if \<not> externally_loaded m0
       then s0\<lparr>trace := trace s0 @ [Ev_vmvector_add (base m0) (base m0 + size_f m0) p]\<rparr>
       else s0) p = Done True s2 \<and>
    deref s2 p = Some m2 \<and>
    (get_module_entry E (base m2) = 0 \<or> get_module_entry E (base m2) = base m2) \<longrightarrow>
      privload_load_finalize (Suc n) E s0 p = Done True s2)"
proof (intro conjI impI)
  assume "get_module_entry E (base m) = 0 \<or> get_module_entry E (base m) = base m"
  then show "privload_call_entry E s m reason = (True, s)"
    by (auto simp: privload_call_entry_def Let_def)
next
  assume a: "deref s0 p = Some m0 \<and>
    privload_process_imports n E
      (if \<not> externally_loaded m0
       then s0\<lparr>trace := trace s0 @ [Ev_vmvector_add (base m0) (base m0 + size_f m0) p]\<rparr>
       else s0) p = Done True s2 \<and>
    deref s2 p = Some m2 \<and>
    (get_module_entry E (base m2) = 0 \<or> get_module_entry E (base m2) = base m2)"
  then have ce: "privload_call_entry E s2 m2 DLL_PROCESS_ATTACH = (True, s2)"
    by (auto simp: privload_call_entry_def Let_def)
  from a ce show "privload_load_finalize (Suc n) E s0 p = Done True s2"
    by (simp add: privload_load_finalize_def routines_at_Suc privload_load_finalize_step_def
        privload_process_imports_def obind_simps Let_def del: routines_at.simps)
qed

theorem privload_call_entry_no_entry_witness:
  "get_module_entry leaf_platform (base leaf_mod) = 0 \<and>
   privload_call_entry leaf_platform init_state leaf_mod DLL_THREAD_DETACH = (True, init_state) \<and>
   deref leaf_state (Heap_mod 2) = Some leaf_mod \<and>
   privload_load_finalize (Suc (Suc 0)) leaf_platform leaf_state (Heap_mod 2) =
     Done True (leaf_state\<lparr>trace := [Ev_vmvector_add 0x10000000 0x10003000 (Heap_mod 2)]\<rparr>)"
proof -
  let ?s2 = "leaf_state\<lparr>trace := [Ev_vmvector_add 0x10000000 0x10003000 (Heap_mod 2)]\<rparr>"
  have d: "deref leaf_state (Heap_mod 2) = Some leaf_mod" "deref ?s2 (Heap_mod 2) = Some leaf_mod"
    by (simp_all add: deref_def leaf_state_def)
  have e: "get_module_entry leaf_platform (base leaf_mod) = 0"
    by (simp add: leaf_platform_simps)
  have i: "privload_process_imports (Suc 0) leaf_platform
      (if \<not> externally_loaded leaf_mod
       then leaf_state\<lparr>trace := trace leaf_state @
              [Ev_vmvector_add (base leaf_mod) (base leaf_mod + size_f leaf_mod) (Heap_mod 2)]\<rparr>
       else leaf_state) (Heap_mod 2) = Done True ?s2"
    by (simp add: privload_process_imports_def routines_at_Suc
        privload_process_imports_step_def privload_get_import_descriptor_def deref_def
        leaf_state_def leaf_mod_def init_state_simps leaf_platform_simps
        del: routines_at.simps)
  from privload_call_entry_no_entry
         [where E = leaf_platform and m = leaf_mod and s = init_state
            and reason = DLL_THREAD_DETACH and ?s0.0 = leaf_state and p = "Heap_mod 2"
            and ?m0.0 = leaf_mod and n = "Suc 0" and ?s2.0 = ?s2 and ?m2.0 = leaf_mod]
       d e i
  show ?thesis by simp
qed

end
